theory Spec2Isabelle
  imports Complex_Main "HOL-Library.Sublist"
begin

section \<open>The in-page test harness of galata (JLabTestInpage)\<close>

text \<open>
  A shallow embedding of \<^verbatim>\<open>packages/galata/src/inpage/index.ts\<close>. The host application
  (JupyterLab, the browser DOM, the timer queue) is not part of the file: what the
  harness reads from it is an explicit argument of each function, what it writes to it
  is recorded in the returned state or trace.
\<close>

subsection \<open>JavaScript strings\<close>

text \<open>
  A JavaScript string is a sequence of UTF-16 code units. \<open>js\<close> turns an ASCII literal
  into one.
\<close>

type_synonym jsstring = "nat list"

definition js :: "string \<Rightarrow> jsstring" where
  "js s = map of_char s"

text \<open>
  \<^verbatim>\<open>String.prototype.trim\<close> removes the ECMAScript WhiteSpace and LineTerminator code
  points from both ends.
\<close>

definition isWhiteSpace :: "nat \<Rightarrow> bool" where
  "isWhiteSpace c =
     (c = 0x0009 \<or> c = 0x000A \<or> c = 0x000B \<or> c = 0x000C \<or> c = 0x000D \<or> c = 0x0020
      \<or> c = 0x00A0 \<or> c = 0x1680 \<or> (0x2000 \<le> c \<and> c \<le> 0x200A) \<or> c = 0x2028
      \<or> c = 0x2029 \<or> c = 0x202F \<or> c = 0x205F \<or> c = 0x3000 \<or> c = 0xFEFF)"

definition trim :: "jsstring \<Rightarrow> jsstring" where
  "trim s = rev (dropWhile isWhiteSpace (rev (dropWhile isWhiteSpace s)))"

subsection \<open>The notebook model: adding and replacing cells\<close>

text \<open>\<^verbatim>\<open>nbformat.CellType\<close> is \<^verbatim>\<open>'code' | 'markdown' | 'raw'\<close>.\<close>

datatype cellType = Code | Markdown | Raw

record cell =
  cell_type :: cellType
  source :: jsstring

text \<open>
  \<^verbatim>\<open>nb.model.contentFactory.createCell(cellType, {cell: {cell_type, source, metadata: {}}})\<close>.
\<close>

definition createCell :: "cellType \<Rightarrow> jsstring \<Rightarrow> cell" where
  "createCell cellType src = \<lparr>cell_type = cellType, source = src\<rparr>"

text \<open>
  The calls the harness makes on the notebook, in the order it makes them. The index of a
  \<open>CellsSet\<close> is the JavaScript number handed to \<^verbatim>\<open>nb.model.cells.set\<close>.
\<close>

datatype model_op =
    InsertBelow
  | BeginCompoundOperation
  | CellsSet int cell
  | EndCompoundOperation
  | Update

text \<open>
  \<open>cells\<close> is the ordered cell list \<^verbatim>\<open>nb.model.cells\<close>; the notebook widget keeps one
  entry of \<^verbatim>\<open>nb.widgets\<close> per cell of the model, so \<^verbatim>\<open>nb.widgets.length\<close> is its length.
  \<open>ops\<close> is the log of the calls made so far. Cell indices are integers (a fractional
  index or NaN is outside the model).
\<close>

record notebook =
  cells :: "cell list"
  activeCellIndex :: int
  ops :: "model_op list"

text \<open>
  \<^verbatim>\<open>nb.model.cells.set(index, cell)\<close> stores into the slot \<open>index\<close> of the underlying array.
  With \<open>index = -1\<close> (the only index outside the list that this file can pass, from
  \<open>addNotebookCell\<close> on an empty list) the elements of the list stay as they are.
\<close>

definition cells_set :: "int \<Rightarrow> cell \<Rightarrow> cell list \<Rightarrow> cell list" where
  "cells_set i c xs = (if 0 \<le> i \<and> i < int (length xs) then xs[nat i := c] else xs)"

text \<open>
  \<^verbatim>\<open>NotebookActions.insertBelow(nb)\<close> of the host: without an active cell it does nothing;
  otherwise it inserts a new empty code cell after the active cell and makes it the
  active one.
\<close>

definition NotebookActions_insertBelow :: "notebook \<Rightarrow> notebook" where
  "NotebookActions_insertBelow nb =
     (if 0 \<le> activeCellIndex nb \<and> activeCellIndex nb < int (length (cells nb))
      then nb\<lparr>cells := take (nat (activeCellIndex nb) + 1) (cells nb)
                         @ [createCell Code []]
                         @ drop (nat (activeCellIndex nb) + 1) (cells nb),
               activeCellIndex := activeCellIndex nb + 1\<rparr>
      else nb)"

text \<open>
  \<open>addNotebookCell\<close>; the host action \<^verbatim>\<open>NotebookActions.insertBelow\<close> is the argument
  \<open>insertBelow\<close>. The function has one \<^verbatim>\<open>return\<close>, of \<^verbatim>\<open>true\<close>.
\<close>

definition addNotebookCell ::
  "(notebook \<Rightarrow> notebook) \<Rightarrow> cellType \<Rightarrow> jsstring \<Rightarrow> notebook \<Rightarrow> notebook \<times> bool" where
  "addNotebookCell insertBelow cellType src nb0 =
     (let nb = (insertBelow nb0)\<lparr>ops := ops (insertBelow nb0) @ [InsertBelow]\<rparr>;
          numCells = int (length (cells nb));
          c = createCell cellType src
      in (nb\<lparr>cells := cells_set (numCells - 1) c (cells nb),
              ops := ops nb @ [BeginCompoundOperation, CellsSet (numCells - 1) c,
                               EndCompoundOperation, Update]\<rparr>,
          True))"

definition setNotebookCell ::
  "int \<Rightarrow> cellType \<Rightarrow> jsstring \<Rightarrow> notebook \<Rightarrow> notebook \<times> bool" where
  "setNotebookCell cellIndex cellType src nb =
     (let numCells = int (length (cells nb))
      in if cellIndex < 0 \<or> cellIndex \<ge> numCells then (nb, False)
         else let c = createCell cellType src
              in (nb\<lparr>cells := cells_set cellIndex c (cells nb),
                      ops := ops nb @ [BeginCompoundOperation, CellsSet cellIndex c,
                                       EndCompoundOperation, Update]\<rparr>,
                  True))"

subsection \<open>Scroll prediction\<close>

text \<open>
  A JavaScript number is an IEEE 754 binary64 value. A finite one is a real number, and an
  arithmetic operation gives the exact result rounded to the nearest binary64 value, a tie
  going to the even significand. \<open>binaryExponent n x\<close> is the exponent \<open>e\<close> with
  \<open>2 ^ e \<le> \<bar>x\<bar> < 2 ^ (e + 1)\<close>, found in at most \<open>n\<close> halvings or doublings; the exponents of
  binary64 lie between -1074 and 1023. The significand has 53 bits, and below the
  exponent -1022 the spacing of the values stays \<open>2 ^ (-1074)\<close>. Results beyond the largest
  finite value, infinities and NaN are outside the model.
\<close>

fun binaryExponent :: "nat \<Rightarrow> real \<Rightarrow> int" where
  "binaryExponent 0 x = 0"
| "binaryExponent (Suc n) x =
     (if \<bar>x\<bar> \<ge> 2 then binaryExponent n (x / 2) + 1
      else if \<bar>x\<bar> < 1 then binaryExponent n (x * 2) - 1
      else 0)"

definition pow2 :: "int \<Rightarrow> real" where
  "pow2 k = (if k \<ge> 0 then 2 ^ nat k else 1 / 2 ^ nat (- k))"

definition roundTiesToEven :: "real \<Rightarrow> int" where
  "roundTiesToEven q =
     (let f = \<lfloor>q\<rfloor>
      in if q - of_int f < 1 / 2 then f
         else if q - of_int f > 1 / 2 then f + 1
         else if even f then f else f + 1)"

text \<open>\<open>binary64 x\<close>: the real \<open>x\<close> rounded to binary64.\<close>

definition binary64 :: "real \<Rightarrow> real" where
  "binary64 x =
     (if x = 0 then 0
      else let e = max (binaryExponent 2200 x) (- 1022);
               u = pow2 (e - 52)
           in of_int (roundTiesToEven (x / u)) * u)"

text \<open>The part of a \<^verbatim>\<open>DOMRect\<close> the harness reads.\<close>

record rect =
  rect_top :: real
  rect_bottom :: real
  rect_height :: real

text \<open>
  \<open>notebookWillScroll\<close>; its first argument is \<^verbatim>\<open>notebook.node.getBoundingClientRect()\<close>.
  Each of the two subtractions, the two divisions and the multiplication rounds;
  \<^verbatim>\<open>Math.abs\<close> and the comparison are exact.
\<close>

definition notebookWillScroll :: "rect \<Rightarrow> real \<Rightarrow> real \<Rightarrow> bool" where
  "notebookWillScroll ar position threshold =
     (let delta = binary64 (binary64 (position - rect_top ar) - binary64 (rect_height ar / 2))
      in \<bar>delta\<bar> > binary64 (binary64 (rect_height ar * threshold) / 100))"


subsection \<open>Resolving a plugin\<close>

text \<open>
  What the harness reads from the application object: \<^verbatim>\<open>app.hasPlugin\<close>, the private
  \<^verbatim>\<open>app._pluginMap\<close> (which an application may not have: \<open>None\<close>), and
  \<^verbatim>\<open>app.activatePlugin\<close>. The promise returned by \<^verbatim>\<open>activatePlugin(id)\<close> fulfils with a
  payload, rejects, or never settles; when it fulfils, the host has by then updated the
  plugin object the harness holds (the second argument of \<open>ActivationFulfilled\<close>).
\<close>

record 's plugin =
  activated :: bool
  service :: 's

datatype ('s, 'r) activation =
    ActivationFulfilled 'r "'s plugin \<Rightarrow> 's plugin"
  | ActivationRejected
  | ActivationPending

record ('s, 'r) app =
  hasPlugin :: "jsstring \<Rightarrow> bool"
  pluginMap :: "(jsstring \<Rightarrow> 's plugin option) option"
  activatePlugin :: "jsstring \<Rightarrow> ('s, 'r) activation"

datatype 'a promise = Resolved 'a | Rejected | Pending

text \<open>
  The outcome of a \<open>getPlugin\<close> call: the final state of the returned promise, the calls
  made to \<^verbatim>\<open>activatePlugin\<close>, and the messages written with \<^verbatim>\<open>console.error\<close>.
\<close>

record 's plugin_result =
  promise :: "'s promise"
  activations :: "jsstring list"
  errors :: "jsstring list"

text \<open>
  \<open>getPlugin\<close>. Reading \<^verbatim>\<open>plugin.activated\<close> of an undefined \<open>plugin\<close> throws a TypeError
  inside the \<^verbatim>\<open>try\<close>; the \<^verbatim>\<open>catch\<close> logs it and the executor returns without settling
  the promise. Nothing in the function calls \<^verbatim>\<open>reject\<close>.
\<close>

definition getPlugin :: "('s, 'r) app \<Rightarrow> jsstring \<Rightarrow> 's plugin_result" where
  "getPlugin a pluginId =
     (if hasPlugin a pluginId then
        (case (case pluginMap a of Some m \<Rightarrow> m pluginId | None \<Rightarrow> None) of
           None \<Rightarrow>
             \<lparr>promise = Pending, activations = [], errors = [js ''Failed to get plugin'']\<rparr>
         | Some plugin \<Rightarrow>
             if activated plugin then
               \<lparr>promise = Resolved (service plugin), activations = [], errors = []\<rparr>
             else
               (case activatePlugin a pluginId of
                  ActivationFulfilled response upd \<Rightarrow>
                    \<lparr>promise = Resolved (service (upd plugin)), activations = [pluginId],
                     errors = []\<rparr>
                | ActivationRejected \<Rightarrow>
                    \<lparr>promise = Pending, activations = [pluginId], errors = []\<rparr>
                | ActivationPending \<Rightarrow>
                    \<lparr>promise = Pending, activations = [pluginId], errors = []\<rparr>))
      else \<lparr>promise = Pending, activations = [], errors = []\<rparr>)"

subsection \<open>Timers and polling\<close>

text \<open>
  Time is in milliseconds, on an ideal timer queue: the callback of
  \<^verbatim>\<open>setInterval(f, 200)\<close> started at time \<open>t\<close> runs at \<open>t + 200\<close>, \<open>t + 400\<close>, ... until the
  interval is cleared. \<open>setInterval_until check t\<close> runs the callback at time \<open>t\<close>: when it
  clears the interval and resolves with \<open>v\<close> (\<open>check t = Some v\<close>) the result is the time
  and the value; otherwise the next run is at \<open>t + 200\<close>. A poll that never resolves has
  the result \<open>None\<close>.
\<close>

partial_function (option) setInterval_until ::
  "(nat \<Rightarrow> 'a option) \<Rightarrow> nat \<Rightarrow> (nat \<times> 'a) option" where
  "setInterval_until check t =
     (case check t of Some v \<Rightarrow> Some (t, v) | None \<Rightarrow> setInterval_until check (t + 200))"

text \<open>\<^verbatim>\<open>IWaitForSelectorOptions\<close>: \<^verbatim>\<open>{ hidden?: boolean }\<close>.\<close>

record waitForSelectorOptions =
  hidden :: "bool option"

definition waitForHidden :: "waitForSelectorOptions option \<Rightarrow> bool" where
  "waitForHidden options = (case options of None \<Rightarrow> False | Some opt \<Rightarrow> hidden opt = Some True)"

text \<open>
  The body of the interval callback shared by \<open>waitForSelector\<close> and \<open>waitForXPath\<close>:
  \<open>Some v\<close> when it clears the interval and resolves with \<open>v\<close> (\<open>None\<close> for
  \<^verbatim>\<open>resolve()\<close>, \<open>Some n\<close> for \<^verbatim>\<open>resolve(found)\<close>).
\<close>

definition waitTick :: "bool \<Rightarrow> 'n option \<Rightarrow> 'n option option" where
  "waitTick forHidden found =
     (if forHidden then (if found = None then Some None else None)
      else (case found of Some n \<Rightarrow> Some (Some n) | None \<Rightarrow> None))"

text \<open>
  \<^verbatim>\<open>parent.querySelector(selector)\<close>: the first element of the subtree, in document order,
  that the selector matches. The selector engine is the argument \<open>matches\<close>.
\<close>

definition querySelector :: "('sel \<Rightarrow> 'n \<Rightarrow> bool) \<Rightarrow> 'sel \<Rightarrow> 'n list \<Rightarrow> 'n option" where
  "querySelector matches selector subtree = find (matches selector) subtree"

text \<open>
  \<open>waitForSelector\<close>, called at time \<open>t0\<close>. \<open>node\<close> and \<open>document\<close> give the elements below
  the node and below the document at each time.
\<close>

definition waitForSelector ::
  "('sel \<Rightarrow> 'n \<Rightarrow> bool) \<Rightarrow> (nat \<Rightarrow> 'n list) \<Rightarrow> 'sel \<Rightarrow> (nat \<Rightarrow> 'n list) option
     \<Rightarrow> waitForSelectorOptions option \<Rightarrow> nat \<Rightarrow> (nat \<times> 'n option) option" where
  "waitForSelector matches document selector node options t0 =
     setInterval_until
       (\<lambda>t. let parent = (case node of Some n \<Rightarrow> n | None \<Rightarrow> document);
                found = querySelector matches selector (parent t)
            in waitTick (waitForHidden options) found)
       (t0 + 200)"

text \<open>
  \<open>waitForXPath\<close>; \<open>evaluate t\<close> is the first node of
  \<^verbatim>\<open>document.evaluate(selector, parent, ...)\<close> at time \<open>t\<close>.
\<close>

definition waitForXPath ::
  "(nat \<Rightarrow> 'n option) \<Rightarrow> waitForSelectorOptions option \<Rightarrow> nat \<Rightarrow> (nat \<times> 'n option) option" where
  "waitForXPath evaluate options t0 =
     setInterval_until (\<lambda>t. waitTick (waitForHidden options) (evaluate t)) (t0 + 200)"

subsection \<open>Waiting for one cell\<close>

text \<open>
  What the harness reads from the DOM of a cell at one moment: the texts of the
  \<^verbatim>\<open>div\<close>s of class \<^verbatim>\<open>jp-InputArea-prompt\<close> below \<^verbatim>\<open>cell.node\<close>, the elements matching
  \<^verbatim>\<open>.jp-Cell-outputArea .jp-OutputArea-output\<close> in document order, and the \<^verbatim>\<open>rendered\<close>
  flag of a markdown cell.
\<close>

record out_node =
  node_id :: nat
  textContent :: jsstring

record cell_snapshot =
  prompts :: "jsstring list"
  outputs :: "out_node list"
  rendered :: bool

text \<open>
  A cell widget: \<^verbatim>\<open>cell.model.value.text\<close>, \<^verbatim>\<open>cell.model.type\<close>, its snapshot at each time,
  and the time at which the promise \<^verbatim>\<open>cell.ready\<close> resolves (\<open>None\<close>: never).
\<close>

record cell_widget =
  model_text :: jsstring
  model_type :: cellType
  snapshot :: "nat \<Rightarrow> cell_snapshot"
  ready :: "nat option"

definition emptyPrompt :: jsstring where
  "emptyPrompt = js ''[ ]:''"

definition runningPrompt :: jsstring where
  "runningPrompt = js ''[*]:''"

definition loadingWidget :: jsstring where
  "loadingWidget = js ''Loading widget...''"

text \<open>
  The XPath \<^verbatim>\<open>.//div[contains-class('jp-InputArea-prompt') and text()="p"]\<close> evaluated on
  \<^verbatim>\<open>cell.node\<close> at time \<open>t\<close>.
\<close>

definition promptXPath :: "cell_widget \<Rightarrow> jsstring \<Rightarrow> nat \<Rightarrow> jsstring option" where
  "promptXPath cell p t = find (\<lambda>x. x = p) (prompts (snapshot cell t))"

text \<open>
  \<^verbatim>\<open>cell.node.querySelector('.jp-Cell-outputArea .jp-OutputArea-output')\<close> at time \<open>t\<close>.
\<close>

definition outputAt :: "cell_widget \<Rightarrow> nat \<Rightarrow> out_node option" where
  "outputAt cell t = (case outputs (snapshot cell t) of [] \<Rightarrow> None | n # _ \<Rightarrow> Some n)"

text \<open>
  \<open>waitForMarkdonCellRendered\<close>, called at time \<open>t0\<close>: the \<^verbatim>\<open>await cell.ready\<close> continues
  at the later of \<open>t0\<close> and the time the promise resolves; the result is the time at which
  the returned promise resolves.
\<close>

definition waitForMarkdonCellRendered :: "cell_widget \<Rightarrow> nat \<Rightarrow> nat option" where
  "waitForMarkdonCellRendered cell t0 =
     (case ready cell of
        None \<Rightarrow> None
      | Some r \<Rightarrow>
          map_option fst
            (setInterval_until (\<lambda>t. if rendered (snapshot cell t) then Some () else None)
               (max t0 r + 200)))"

text \<open>
  The variables of the promise executor of the code branch of \<open>waitForCellRun\<close>:
  \<open>timer\<close> says whether an interval handle is held, \<open>timeoutTimer\<close> is the time at which the
  armed timeout is due, \<open>timeoutBeforeInterval\<close> says whether the armed timeout was created
  before the interval was, \<open>resolved\<close> is the time and value of the first call of
  \<^verbatim>\<open>resolve\<close> (later calls do nothing to a settled promise). \<open>armedAt\<close> is a history
  variable: the times at which \<^verbatim>\<open>setTimeout\<close> was called.
\<close>

record wait_state =
  numTries :: nat
  timer :: bool
  timeoutTimer :: "nat option"
  timeoutBeforeInterval :: bool
  resolved :: "(nat \<times> out_node option) option"
  armedAt :: "nat list"

text \<open>
  \<^verbatim>\<open>setTimeout\<close> takes its delay as a 32-bit signed integer: the number is reduced modulo
  \<open>2 ^ 32\<close>, and a value from \<open>2 ^ 31\<close> on, which is negative as a signed integer, counts as 0.
\<close>

definition setTimeoutDelay :: "nat \<Rightarrow> nat" where
  "setTimeoutDelay timeout = (let m = timeout mod 2 ^ 32 in if m < 2 ^ 31 then m else 0)"

definition clearAndResolve :: "nat \<Rightarrow> out_node option \<Rightarrow> wait_state \<Rightarrow> wait_state" where
  "clearAndResolve now out st =
     st\<lparr>timer := False, timeoutTimer := None,
        resolved := (case resolved st of None \<Rightarrow> Some (now, out) | Some r \<Rightarrow> Some r)\<rparr>"

text \<open>
  \<open>startTimeout\<close> run at time \<open>now\<close>. The timeout is created before the interval exactly
  when no interval handle is held yet, that is, in the check the executor makes itself.
\<close>

definition startTimeout :: "nat \<Rightarrow> nat \<Rightarrow> wait_state \<Rightarrow> wait_state" where
  "startTimeout now timeout st =
     (if timeoutTimer st = None
      then st\<lparr>timeoutTimer := Some (now + setTimeoutDelay timeout),
              timeoutBeforeInterval := \<not> timer st,
              armedAt := armedAt st @ [now]\<rparr>
      else st)"

text \<open>\<open>checkIfDone\<close> run at time \<open>now\<close>, when the query for the output node gives \<open>out\<close>.\<close>

definition checkIfDone :: "nat \<Rightarrow> nat \<Rightarrow> out_node option \<Rightarrow> wait_state \<Rightarrow> wait_state" where
  "checkIfDone now timeout out st =
     (let st' =
        (case out of
           Some n \<Rightarrow>
             if textContent n = loadingWidget then startTimeout now timeout st
             else clearAndResolve now (Some n) st
         | None \<Rightarrow> if numTries st > 0 then clearAndResolve now None st else st)
      in st'\<lparr>numTries := numTries st' + 1\<rparr>)"

text \<open>
  Timers that are due at the same time run in the order in which they were created.
  \<open>tickBeforeTimeout first t d\<close>: the run of the interval callback at time \<open>t\<close> comes before
  the timeout due at \<open>d\<close>, where \<open>first\<close> says whether the timeout was created before the
  interval.
\<close>

definition tickBeforeTimeout :: "bool \<Rightarrow> nat \<Rightarrow> nat \<Rightarrow> bool" where
  "tickBeforeTimeout first t d = (t < d \<or> (t = d \<and> \<not> first))"

text \<open>
  The timer queue after the executor has returned; \<open>t\<close> is the time of the next run of the
  interval callback. The loop ends when the promise is settled. An armed timeout runs
  (its callback calls \<^verbatim>\<open>clearAndResolve(null)\<close>) unless the interval callback comes before
  it.
\<close>

partial_function (option) eventLoop ::
  "nat \<Rightarrow> (nat \<Rightarrow> out_node option) \<Rightarrow> nat \<Rightarrow> wait_state \<Rightarrow> wait_state option" where
  "eventLoop timeout out t st =
     (case resolved st of
        Some r \<Rightarrow> Some st
      | None \<Rightarrow>
          (case timeoutTimer st of
             Some d \<Rightarrow>
               if tickBeforeTimeout (timeoutBeforeInterval st) t d
               then eventLoop timeout out (t + 200) (checkIfDone t timeout (out t) st)
               else eventLoop timeout out t (clearAndResolve d None st)
           | None \<Rightarrow> eventLoop timeout out (t + 200) (checkIfDone t timeout (out t) st)))"

text \<open>
  The executor of the code branch, run at time \<open>t0\<close>: \<^verbatim>\<open>checkIfDone()\<close> at once, then
  \<^verbatim>\<open>timer = setInterval(..., 200)\<close>. When the first check resolves the promise, the
  interval created after it is never cleared; the value of the promise is not changed by
  that.
\<close>

definition codeCellRun :: "nat \<Rightarrow> (nat \<Rightarrow> out_node option) \<Rightarrow> nat \<Rightarrow> wait_state option" where
  "codeCellRun timeout out t0 =
     (let st = checkIfDone t0 timeout (out t0)
                 \<lparr>numTries = 0, timer = False, timeoutTimer = None,
                  timeoutBeforeInterval = False, resolved = None, armedAt = []\<rparr>
      in eventLoop timeout out (t0 + 200) (st\<lparr>timer := True\<rparr>))"

text \<open>
  \<open>waitForCellRun\<close>, called at time \<open>t0\<close>: the time at which the returned promise resolves
  and its value (\<open>None\<close> for \<^verbatim>\<open>null\<close>); \<open>None\<close> when it never resolves.
\<close>

definition waitForCellRun ::
  "cell_widget \<Rightarrow> nat \<Rightarrow> nat \<Rightarrow> (nat \<times> out_node option) option" where
  "waitForCellRun cell timeout t0 =
     (if trim (model_text cell) = [] then Some (t0, None)
      else
        (case waitForXPath (promptXPath cell emptyPrompt) (Some \<lparr>hidden = Some True\<rparr>) t0 of
           None \<Rightarrow> None
         | Some (t1, _) \<Rightarrow>
             (case waitForXPath (promptXPath cell runningPrompt)
                     (Some \<lparr>hidden = Some True\<rparr>) t1 of
                None \<Rightarrow> None
              | Some (t2, _) \<Rightarrow>
                  (case model_type cell of
                     Markdown \<Rightarrow>
                       (case waitForMarkdonCellRendered cell t2 of
                          None \<Rightarrow> None
                        | Some t3 \<Rightarrow> Some (t3, None))
                   | Raw \<Rightarrow> Some (t2, None)
                   | Code \<Rightarrow>
                       (case codeCellRun timeout (outputAt cell) t2 of
                          None \<Rightarrow> None
                        | Some st \<Rightarrow> resolved st)))))"

text \<open>The parameter default \<^verbatim>\<open>timeout = 2000\<close>.\<close>

definition waitForCellRun_default :: "cell_widget \<Rightarrow> nat \<Rightarrow> (nat \<times> out_node option) option" where
  "waitForCellRun_default cell t0 = waitForCellRun cell 2000 t0"

subsection \<open>Running the notebook cell by cell\<close>

text \<open>
  An awaited promise of the host or of the caller fulfils, rejects or never settles.
\<close>

datatype outcome = Fulfils | Rejects | NeverSettles

text \<open>
  \<^verbatim>\<open>INotebookRunCallback\<close>: three optional callbacks. The argument of each is the index of
  the cell during which it is called (\<^verbatim>\<open>onAfterCellRun\<close> receives it from the harness; for
  the two scroll callbacks it only lets the outcome differ from one call to the next).
\<close>

record notebookRunCallback =
  onAfterCellRun :: "(nat \<Rightarrow> outcome) option"
  onBeforeScroll :: "(nat \<Rightarrow> outcome) option"
  onAfterScroll :: "(nat \<Rightarrow> outcome) option"

text \<open>
  What the loop body reads for one cell: the cell widget (its snapshots are timed from the
  start of its \<open>waitForCellRun\<close>), the outcome of \<^verbatim>\<open>NotebookActions.run\<close>, the bounding
  boxes of \<^verbatim>\<open>cell.node.querySelector('.jp-Cell-outputArea')\<close> (\<open>None\<close> when the query gives
  \<^verbatim>\<open>null\<close>) and of \<^verbatim>\<open>cell.inputArea.node\<close>, the bounding box of the notebook node, and
  \<^verbatim>\<open>notebook.node.scrollTop\<close> before and after \<^verbatim>\<open>notebook.scrollToPosition\<close>.
\<close>

record run_cell =
  widget :: cell_widget
  runOutcome :: outcome
  outputAreaRect :: "rect option"
  inputAreaRect :: rect
  viewport :: rect
  prevScroll :: real
  newScroll :: real

datatype awaited =
    NotebookActionsRun nat
  | WaitForCellRun nat
  | OnAfterCellRun nat
  | OnBeforeScroll
  | OnAfterScroll

text \<open>
  The trace of a run: \<open>Invoke a\<close> when the awaited operation is started, \<open>Settled a\<close> when
  its promise has fulfilled and the \<^verbatim>\<open>await\<close> continues.
\<close>

datatype event =
    DeselectAll
  | SetActiveCellIndex nat
  | Select nat
  | Invoke awaited
  | Settled awaited
  | ScrollToPosition real real
  | NotebookUpdate
  | ConsoleError jsstring

text \<open>
  How an async function ends: it returns a value, it waits for ever on a promise that
  never settles, or an exception rejects its promise.
\<close>

datatype 'a completion = Done 'a | Hung | Threw

type_synonym 'a proc = "event list \<times> 'a completion"

definition ret :: "'a \<Rightarrow> 'a proc" where
  "ret x = ([], Done x)"

definition emit :: "event \<Rightarrow> unit proc" where
  "emit e = ([e], Done ())"

definition throw :: "'a proc" where
  "throw = ([], Threw)"

definition bind_proc :: "'a proc \<Rightarrow> ('a \<Rightarrow> 'b proc) \<Rightarrow> 'b proc" where
  "bind_proc m f =
     (case m of
        (es, Done x) \<Rightarrow> (case f x of (es', r) \<Rightarrow> (es @ es', r))
      | (es, Hung) \<Rightarrow> (es, Hung)
      | (es, Threw) \<Rightarrow> (es, Threw))"

text \<open>\<^verbatim>\<open>await\<close> of a promise with the given outcome.\<close>

definition await :: "awaited \<Rightarrow> outcome \<Rightarrow> unit proc" where
  "await a oc =
     (case oc of
        Fulfils \<Rightarrow> ([Invoke a, Settled a], Done ())
      | Rejects \<Rightarrow> ([Invoke a], Threw)
      | NeverSettles \<Rightarrow> ([Invoke a], Hung))"

text \<open>
  \<^verbatim>\<open>await this.waitForCellRun(cell)\<close>: the promise never rejects; it gives the output node
  or \<^verbatim>\<open>null\<close>.
\<close>

definition awaitWaitForCellRun :: "nat \<Rightarrow> cell_widget \<Rightarrow> out_node option proc" where
  "awaitWaitForCellRun i cell =
     (case waitForCellRun_default cell 0 of
        None \<Rightarrow> ([Invoke (WaitForCellRun i)], Hung)
      | Some (t, output) \<Rightarrow> ([Invoke (WaitForCellRun i), Settled (WaitForCellRun i)], Done output))"

definition scrollThreshold :: real where
  "scrollThreshold = 45"

definition scrollMispredicted :: jsstring where
  "scrollMispredicted = js ''Notebook scroll mispredicted!''"

text \<open>
  The second half of the body of the \<^verbatim>\<open>for\<close> loop of \<open>runActiveNotebookCellByCell\<close>, from
  \<^verbatim>\<open>const rectNode = ...\<close> to the end of the body: \<open>output\<close> is the result of
  \<open>waitForCellRun\<close> for the cell \<open>i\<close>. \<^verbatim>\<open>rectNode.getBoundingClientRect()\<close> throws when the
  query for the output area gave \<^verbatim>\<open>null\<close>.
\<close>

definition scrollToCell ::
  "notebookRunCallback option \<Rightarrow> nat \<Rightarrow> run_cell \<Rightarrow> out_node option \<Rightarrow> unit proc" where
  "scrollToCell callback i cell output =
     bind_proc
       (case (if output \<noteq> None then outputAreaRect cell else Some (inputAreaRect cell)) of
          None \<Rightarrow> throw
        | Some r \<Rightarrow> ret r) (\<lambda>rect.
     let willScroll = notebookWillScroll (viewport cell) (rect_bottom rect) scrollThreshold
     in
     bind_proc
       (case callback of
          None \<Rightarrow> ret ()
        | Some cb \<Rightarrow>
            (case onBeforeScroll cb of
               None \<Rightarrow> ret ()
             | Some f \<Rightarrow> if willScroll then await OnBeforeScroll (f i) else ret ())) (\<lambda>_.
     bind_proc (emit (ScrollToPosition (rect_bottom rect) scrollThreshold)) (\<lambda>_.
     bind_proc (emit NotebookUpdate) (\<lambda>_.
       (case callback of
          None \<Rightarrow> ret ()
        | Some cb \<Rightarrow>
            (case onAfterScroll cb of
               None \<Rightarrow> ret ()
             | Some f \<Rightarrow>
                 if willScroll then
                   bind_proc
                     (if newScroll cell \<noteq> prevScroll cell
                      then emit (ConsoleError scrollMispredicted) else ret ()) (\<lambda>_.
                   await OnAfterScroll (f i))
                 else ret ()))))))"

text \<open>
  The body of the \<^verbatim>\<open>for\<close> loop of \<open>runActiveNotebookCellByCell\<close> for the cell \<open>i\<close>: select
  the cell, run it, wait for it, call \<^verbatim>\<open>onAfterCellRun(i)\<close>, then scroll to it.
\<close>

definition cellBody :: "notebookRunCallback option \<Rightarrow> nat \<Rightarrow> run_cell \<Rightarrow> unit proc" where
  "cellBody callback i cell =
     bind_proc (emit (SetActiveCellIndex i)) (\<lambda>_.
     bind_proc (emit (Select i)) (\<lambda>_.
     bind_proc (await (NotebookActionsRun i) (runOutcome cell)) (\<lambda>_.
     bind_proc (awaitWaitForCellRun i (widget cell)) (\<lambda>output.
     bind_proc
       (case callback of
          None \<Rightarrow> ret ()
        | Some cb \<Rightarrow>
            (case onAfterCellRun cb of
               None \<Rightarrow> ret ()
             | Some f \<Rightarrow> await (OnAfterCellRun i) (f i))) (\<lambda>_.
     scrollToCell callback i cell output)))))"

text \<open>The \<^verbatim>\<open>for\<close> loop, from the index \<open>i\<close> over the remaining widgets.\<close>

fun cellLoop :: "notebookRunCallback option \<Rightarrow> nat \<Rightarrow> run_cell list \<Rightarrow> unit proc" where
  "cellLoop callback i [] = ret ()"
| "cellLoop callback i (cell # rest) =
     bind_proc (cellBody callback i cell) (\<lambda>_. cellLoop callback (Suc i) rest)"

text \<open>
  \<open>runActiveNotebookCellByCell\<close>. \<open>widgets\<close> is \<^verbatim>\<open>notebook.widgets\<close>; when it is missing
  (\<open>None\<close>) the function logs and then throws on \<^verbatim>\<open>notebook.widgets.length\<close>.
\<close>

definition runActiveNotebookCellByCell ::
  "notebookRunCallback option \<Rightarrow> run_cell list option \<Rightarrow> unit proc" where
  "runActiveNotebookCellByCell callback widgets =
     (case widgets of
        None \<Rightarrow> ([ConsoleError (js ''NOTEBOOK CELL PROBLEM'')], Threw)
      | Some ws \<Rightarrow>
          if length ws = 0 then ret ()
          else bind_proc (emit DeselectAll) (\<lambda>_. cellLoop callback 0 ws))"





text \<open>
  The test of \<open>checkIfDone\<close> for the placeholder of a widget that has not rendered yet.
\<close>

definition showsPlaceholder :: "out_node option \<Rightarrow> bool" where
  "showsPlaceholder out = (case out of None \<Rightarrow> False | Some n \<Rightarrow> textContent n = loadingWidget)"

text \<open>
  The state of the executor once the interval exists and the timeout has been armed at
  time \<open>a\<close>, with \<open>n\<close> checks done; \<open>first\<close> says whether the timeout was created before the
  interval.
\<close>

definition armedState :: "nat \<Rightarrow> nat \<Rightarrow> nat \<Rightarrow> bool \<Rightarrow> wait_state" where
  "armedState n a timeout first =
     \<lparr>numTries = n, timer = True, timeoutTimer = Some (a + setTimeoutDelay timeout),
      timeoutBeforeInterval = first, resolved = None, armedAt = [a]\<rparr>"

text \<open>
  \<open>armingCheck out t0 a\<close>: the check at time \<open>a\<close> is one that arms the timeout when the
  executor starts at \<open>t0\<close>. It is the first check, seeing the placeholder, or the second
  one, seeing the placeholder after the first saw no output node.
\<close>

definition armingCheck :: "(nat \<Rightarrow> out_node option) \<Rightarrow> nat \<Rightarrow> nat \<Rightarrow> bool" where
  "armingCheck out t0 a =
     (a = t0 \<and> showsPlaceholder (out t0)
      \<or> a = t0 + 200 \<and> out t0 = None \<and> showsPlaceholder (out (t0 + 200)))"

section \<open>Example environments\<close>

text \<open>Concrete inputs, used below to instantiate the theorems.\<close>

definition twoCells :: notebook where
  "twoCells = \<lparr>cells = [createCell Code (js ''a''), createCell Markdown (js ''b'')],
               activeCellIndex = 0, ops = []\<rparr>"

definition threeCells :: notebook where
  "threeCells = \<lparr>cells = [createCell Code (js ''a''), createCell Markdown (js ''b''),
                          createCell Code (js ''c'')],
               activeCellIndex = 0, ops = []\<rparr>"

definition exampleApp :: "(nat, nat) app" where
  "exampleApp =
     \<lparr>hasPlugin = (\<lambda>i. i = js ''router'' \<or> i = js ''docmanager''),
      pluginMap = Some (\<lambda>i. if i = js ''router'' then Some \<lparr>activated = True, service = 7\<rparr>
                            else if i = js ''docmanager'' then Some \<lparr>activated = False, service = 0\<rparr>
                            else None),
      activatePlugin = (\<lambda>i. ActivationFulfilled 99 (\<lambda>p. p\<lparr>activated := True, service := 8\<rparr>))\<rparr>"

definition appWithoutPluginMap :: "(nat, nat) app" where
  "appWithoutPluginMap =
     \<lparr>hasPlugin = (\<lambda>i. i = js ''router''), pluginMap = None,
      activatePlugin = (\<lambda>i. ActivationPending)\<rparr>"

definition blankCell :: cell_widget where
  "blankCell = \<lparr>model_text = js '' '', model_type = Code,
                snapshot = (\<lambda>t. \<lparr>prompts = [js ''[ ]:''], outputs = [], rendered = False\<rparr>),
                ready = None\<rparr>"


text \<open>
  A document in which the element 1 is present until it is removed before time 600; a
  selector matches the element it names.
\<close>

definition exampleDocument :: "nat \<Rightarrow> nat list" where
  "exampleDocument t = (if t < 600 then [3, 1, 2] else [3, 2])"

definition sameElement :: "nat \<Rightarrow> nat \<Rightarrow> bool" where
  "sameElement selector n = (n = selector)"

definition hiddenOption :: "waitForSelectorOptions option" where
  "hiddenOption = Some \<lparr>hidden = Some True\<rparr>"

text \<open>
  Five code cells, called at time 0. In each the prompt \<^verbatim>\<open>[ ]:\<close> is gone at the tick 200
  and the prompt \<^verbatim>\<open>[*]:\<close> at the tick 400. From then on the first shows the placeholder of
  a widget for ever, the second shows it until its output arrives before time 1000, the
  third never has an output node, the fourth has no output node at 400, shows the
  placeholder from 600 on and has its output at 2600, and the fifth shows the placeholder
  until its output node is removed before time 800.
\<close>

definition examplePrompts :: "nat \<Rightarrow> jsstring list" where
  "examplePrompts t =
     (if t < 200 then [emptyPrompt] else if t < 400 then [runningPrompt] else [js ''[1]:''])"

definition placeholderNode :: out_node where
  "placeholderNode = \<lparr>node_id = 1, textContent = loadingWidget\<rparr>"

definition resultNode :: out_node where
  "resultNode = \<lparr>node_id = 1, textContent = js ''42''\<rparr>"


definition lateOutputCell :: cell_widget where
  "lateOutputCell =
     \<lparr>model_text = js ''w'', model_type = Code,
      snapshot = (\<lambda>t. \<lparr>prompts = examplePrompts t,
                         outputs = (if t < 400 then [] else if t < 1000 then [placeholderNode]
                                    else [resultNode]),
                         rendered = False\<rparr>),
      ready = None\<rparr>"





text \<open>
  Callbacks that all fulfil, a notebook viewport with top 100 and height 400, and three
  cells: two with an output (the second example cell above) whose output area ends at
  700, and one with a blank source whose input area ends at 310. After the scroll to the
  first cell the notebook position has changed from 0 to 400; after the scrolls to the
  other two it has not changed.
\<close>

definition allCallbacks :: notebookRunCallback where
  "allCallbacks = \<lparr>onAfterCellRun = Some (\<lambda>i. Fulfils), onBeforeScroll = Some (\<lambda>i. Fulfils),
                    onAfterScroll = Some (\<lambda>i. Fulfils)\<rparr>"

definition exampleViewport :: rect where
  "exampleViewport = \<lparr>rect_top = 100, rect_bottom = 500, rect_height = 400\<rparr>"

definition movedCell :: run_cell where
  "movedCell = \<lparr>widget = lateOutputCell, runOutcome = Fulfils,
                outputAreaRect = Some \<lparr>rect_top = 650, rect_bottom = 700, rect_height = 50\<rparr>,
                inputAreaRect = \<lparr>rect_top = 600, rect_bottom = 650, rect_height = 50\<rparr>,
                viewport = exampleViewport, prevScroll = 0, newScroll = 400\<rparr>"

definition pinnedCell :: run_cell where
  "pinnedCell = \<lparr>widget = lateOutputCell, runOutcome = Fulfils,
                 outputAreaRect = Some \<lparr>rect_top = 650, rect_bottom = 700, rect_height = 50\<rparr>,
                 inputAreaRect = \<lparr>rect_top = 600, rect_bottom = 650, rect_height = 50\<rparr>,
                 viewport = exampleViewport, prevScroll = 0, newScroll = 0\<rparr>"









section \<open>Properties\<close>

subsection \<open>Replacing and adding cells\<close>

text \<open>
  C3. For an index below 0 or at least the number of cells, \<open>setNotebookCell\<close> returns
  false and leaves the notebook as it is: the cell list and the log of calls (no compound
  operation, no replacement, no update) are unchanged. For an index in range it replaces
  the cell at that index inside one compound operation, forces an update and returns true.
\<close>

theorem setNotebookCell_range:
  "(cellIndex < 0 \<or> cellIndex \<ge> int (length (cells nb)) \<longrightarrow>
      setNotebookCell cellIndex cellType src nb = (nb, False))
   \<and> (0 \<le> cellIndex \<and> cellIndex < int (length (cells nb)) \<longrightarrow>
      setNotebookCell cellIndex cellType src nb =
        (nb\<lparr>cells := (cells nb)[nat cellIndex := createCell cellType src],
            ops := ops nb @ [BeginCompoundOperation, CellsSet cellIndex (createCell cellType src),
                             EndCompoundOperation, Update]\<rparr>, True))"
  by (auto simp: setNotebookCell_def cells_set_def Let_def)

theorem setNotebookCell_range_witness:
  "setNotebookCell 2 Raw (js ''c'') twoCells = (twoCells, False)
   \<and> setNotebookCell (- 1) Raw (js ''c'') twoCells = (twoCells, False)
   \<and> setNotebookCell 1 Raw (js ''c'') twoCells =
        (\<lparr>cells = [createCell Code (js ''a''), createCell Raw (js ''c'')], activeCellIndex = 0,
          ops = [BeginCompoundOperation, CellsSet 1 (createCell Raw (js ''c'')),
                 EndCompoundOperation, Update]\<rparr>, True)"
  using setNotebookCell_range [of 2 twoCells Raw "js ''c''"]
        setNotebookCell_range [of "- 1" twoCells Raw "js ''c''"]
        setNotebookCell_range [of 1 twoCells Raw "js ''c''"]
  by (simp add: twoCells_def)

text \<open>
  C10. \<open>addNotebookCell\<close> returns true for every cell type and source, whatever the host's
  insertion does; the cell it replaces is the one at the last index of the cell list as it
  is after the insertion. With the host's insertion below the active cell and the first of
  three cells active, the new blank cell stays second and the former last cell is the one
  replaced.
\<close>

theorem addNotebookCell_last:
  "snd (addNotebookCell insertBelow cellType src nb) = True
   \<and> cells (fst (addNotebookCell insertBelow cellType src nb)) =
       (if cells (insertBelow nb) = [] then []
        else butlast (cells (insertBelow nb)) @ [createCell cellType src])
   \<and> ops (fst (addNotebookCell insertBelow cellType src nb)) =
       ops (insertBelow nb) @
         [InsertBelow, BeginCompoundOperation,
          CellsSet (int (length (cells (insertBelow nb))) - 1) (createCell cellType src),
          EndCompoundOperation, Update]
   \<and> cells (fst (addNotebookCell NotebookActions_insertBelow Raw (js ''n'') threeCells)) =
       [createCell Code (js ''a''), createCell Code [], createCell Markdown (js ''b''),
        createCell Raw (js ''n'')]"
proof -
  have upd: "xs \<noteq> [] \<Longrightarrow> xs[length xs - Suc 0 := c] = butlast xs @ [c]" for xs :: "cell list" and c
    by (induction xs rule: rev_induct) (simp_all add: list_update_append)
  have n: "xs \<noteq> [] \<Longrightarrow> nat (int (length xs) - 1) = length xs - Suc 0" for xs :: "cell list"
    by (cases xs) simp_all
  have a: "cells (fst (addNotebookCell ins ty s n0)) =
       (if cells (ins n0) = [] then [] else butlast (cells (ins n0)) @ [createCell ty s])"
    for ins ty s n0
    by (simp add: addNotebookCell_def cells_set_def Let_def upd n)
  have b: "cells (fst (addNotebookCell NotebookActions_insertBelow Raw (js ''n'') threeCells)) =
       [createCell Code (js ''a''), createCell Code [], createCell Markdown (js ''b''),
        createCell Raw (js ''n'')]"
    unfolding a by (simp add: NotebookActions_insertBelow_def threeCells_def)
  show ?thesis
    using a b by (simp add: addNotebookCell_def Let_def)
qed

subsection \<open>Resolving a plugin\<close>

text \<open>
  C2, as stated, at an application that reports the id known and has no private plugin
  map: the lookup fails, the failure is caught and logged, and the promise stays pending.
\<close>

theorem getPlugin_known_without_entry:
  "hasPlugin appWithoutPluginMap (js ''router'')
   \<and> getPlugin appWithoutPluginMap (js ''router'') =
       \<lparr>promise = Pending, activations = [], errors = [js ''Failed to get plugin'']\<rparr>"
  by (simp add: appWithoutPluginMap_def getPlugin_def)

text \<open>
  C2, amended. When the registry reports the id known and the private plugin map holds an
  entry for it: an activated plugin resolves the promise with its service at once, with no
  call of \<^verbatim>\<open>activatePlugin\<close>; otherwise \<^verbatim>\<open>activatePlugin\<close> is called once and the promise
  resolves, when that activation fulfils, with the service the plugin object then holds,
  whatever the payload of the activation; when the activation rejects or never settles the
  promise stays pending. When the id is known and the map holds no entry the promise stays
  pending and the failure is logged. When the id is unknown the promise stays pending. The
  promise is never rejected.
\<close>

theorem getPlugin_resolution:
  "(hasPlugin a pluginId \<and> (case pluginMap a of Some m \<Rightarrow> m pluginId | None \<Rightarrow> None) = Some p \<longrightarrow>
      (activated p \<longrightarrow>
         getPlugin a pluginId = \<lparr>promise = Resolved (service p), activations = [], errors = []\<rparr>)
      \<and> (\<not> activated p \<longrightarrow>
           activations (getPlugin a pluginId) = [pluginId]
           \<and> errors (getPlugin a pluginId) = []
           \<and> (\<forall>response upd. activatePlugin a pluginId = ActivationFulfilled response upd \<longrightarrow>
                  promise (getPlugin a pluginId) = Resolved (service (upd p)))
           \<and> (activatePlugin a pluginId = ActivationRejected \<or> activatePlugin a pluginId = ActivationPending \<longrightarrow>
                  promise (getPlugin a pluginId) = Pending)))
   \<and> (hasPlugin a pluginId \<and> (case pluginMap a of Some m \<Rightarrow> m pluginId | None \<Rightarrow> None) = None \<longrightarrow>
        getPlugin a pluginId =
          \<lparr>promise = Pending, activations = [], errors = [js ''Failed to get plugin'']\<rparr>)
   \<and> (\<not> hasPlugin a pluginId \<longrightarrow>
        getPlugin a pluginId = \<lparr>promise = Pending, activations = [], errors = []\<rparr>)
   \<and> promise (getPlugin a pluginId) \<noteq> Rejected"
  by (auto simp: getPlugin_def split: option.splits activation.splits)

theorem getPlugin_resolution_witness:
  "getPlugin exampleApp (js ''router'') = \<lparr>promise = Resolved 7, activations = [], errors = []\<rparr>
   \<and> promise (getPlugin exampleApp (js ''docmanager'')) = Resolved 8
   \<and> activations (getPlugin exampleApp (js ''docmanager'')) = [js ''docmanager'']
   \<and> getPlugin exampleApp (js ''unknown'') = \<lparr>promise = Pending, activations = [], errors = []\<rparr>"
  using getPlugin_resolution [of exampleApp "js ''router''" "\<lparr>activated = True, service = 7\<rparr>"]
        getPlugin_resolution [of exampleApp "js ''docmanager''" "\<lparr>activated = False, service = 0\<rparr>"]
        getPlugin_resolution [of exampleApp "js ''unknown''"]
  by (simp add: exampleApp_def js_def)

subsection \<open>Polling\<close>

lemma poll_first:
  "check (t + 200 * k) = Some v \<Longrightarrow> (\<And>j. j < k \<Longrightarrow> check (t + 200 * j) = None) \<Longrightarrow>
   setInterval_until check t = Some (t + 200 * k, v)"
proof (induction k arbitrary: t)
  case 0
  then show ?case by (subst setInterval_until.simps) simp
next
  case (Suc k)
  have "check t = None" using Suc.prems(2) [of 0] by simp
  moreover have "setInterval_until check (t + 200) = Some (t + 200 + 200 * k, v)"
  proof (rule Suc.IH)
    show "check (t + 200 + 200 * k) = Some v" using Suc.prems(1) by (simp add: add.assoc)
    show "check (t + 200 + 200 * j) = None" if "j < k" for j
      using Suc.prems(2) [of "Suc j"] that by (simp add: add.assoc)
  qed
  ultimately show ?case by (subst setInterval_until.simps) (simp add: add.assoc)
qed

lemma poll_some:
  assumes "setInterval_until check t = Some r"
  shows "\<exists>k. fst r = t + 200 * k \<and> check (fst r) = Some (snd r) \<and> (\<forall>j<k. check (t + 200 * j) = None)"
proof (rule setInterval_until.raw_induct
    [where P = "\<lambda>check t r. \<exists>k. fst r = t + 200 * k \<and> check (fst r) = Some (snd r)
                  \<and> (\<forall>j<k. check (t + 200 * j) = None)", OF _ assms])
  fix f and check :: "nat \<Rightarrow> 'a option" and t r
  assume IH: "\<And>check t r. f check t = Some r \<Longrightarrow>
      \<exists>k. fst r = t + 200 * k \<and> check (fst r) = Some (snd r) \<and> (\<forall>j<k. check (t + 200 * j) = None)"
    and eq: "(case check t of None \<Rightarrow> f check (t + 200) | Some v \<Rightarrow> Some (t, v)) = Some r"
  show "\<exists>k. fst r = t + 200 * k \<and> check (fst r) = Some (snd r) \<and> (\<forall>j<k. check (t + 200 * j) = None)"
  proof (cases "check t")
    case None
    with eq have "f check (t + 200) = Some r" by simp
    from IH [OF this] obtain k where k: "fst r = t + 200 + 200 * k" "check (fst r) = Some (snd r)"
      "\<forall>j<k. check (t + 200 + 200 * j) = None" by blast
    have "\<forall>j<Suc k. check (t + 200 * j) = None"
    proof (intro allI impI)
      fix j assume "j < Suc k"
      show "check (t + 200 * j) = None"
      proof (cases j)
        case 0 then show ?thesis using None by simp
      next
        case (Suc j')
        then show ?thesis using k(3) \<open>j < Suc k\<close> by (simp add: add.assoc)
      qed
    qed
    then show ?thesis using k(1,2) by (intro exI [of _ "Suc k"]) (simp add: add.assoc)
  next
    case (Some v)
    with eq show ?thesis by (intro exI [of _ 0]) auto
  qed
qed

lemma poll_none:
  "(setInterval_until check t = None) = (\<forall>k. check (t + 200 * k) = None)"
proof
  assume n: "setInterval_until check t = None"
  show "\<forall>k. check (t + 200 * k) = None"
  proof (rule ccontr)
    assume "\<not> (\<forall>k. check (t + 200 * k) = None)"
    then obtain k where k: "check (t + 200 * k) \<noteq> None" by blast
    define m where "m = (LEAST k. check (t + 200 * k) \<noteq> None)"
    have m1: "check (t + 200 * m) \<noteq> None" unfolding m_def using k by (rule LeastI)
    have m2: "check (t + 200 * j) = None" if "j < m" for j
      using not_less_Least [of j "\<lambda>k. check (t + 200 * k) \<noteq> None"] that unfolding m_def by blast
    from m1 obtain v where v: "check (t + 200 * m) = Some v" by blast
    have "setInterval_until check t = Some (t + 200 * m, v)"
      using v m2 by (rule poll_first [of check t m v])
    with n show False by simp
  qed
next
  assume a: "\<forall>k. check (t + 200 * k) = None"
  show "setInterval_until check t = None"
  proof (cases "setInterval_until check t")
    case (Some r)
    from poll_some [OF this] a show ?thesis by auto
  qed simp
qed

lemma trim_blank: "(\<forall>c\<in>set s. isWhiteSpace c) \<Longrightarrow> trim s = []"
proof -
  assume "\<forall>c\<in>set s. isWhiteSpace c"
  then have e: "dropWhile isWhiteSpace s = []" by (simp add: dropWhile_eq_Nil_conv)
  show ?thesis unfolding trim_def e by simp
qed

lemma waitForXPath_after:
  "waitForXPath evaluate options t0 = Some (t, v) \<Longrightarrow> t0 + 200 \<le> t"
  unfolding waitForXPath_def by (drule poll_some) auto

lemma querySelector_None:
  "(querySelector matches selector subtree = None) = (\<not> (\<exists>n\<in>set subtree. matches selector n))"
  by (auto simp: querySelector_def find_None_iff)

text \<open>
  C9. With the option \<^verbatim>\<open>{hidden: true}\<close>, \<open>waitForSelector\<close> resolves only at a poll tick
  (200, 400, ... after the call) at which the selector matches no element below the
  parent, and then with no value; it resolves at the first such tick; and while every
  tick finds a match it does not resolve.
\<close>

theorem waitForSelector_hidden:
  assumes "options = Some opt" and "hidden opt = Some True"
  shows
    "(\<forall>t v. waitForSelector matches document selector node options t0 = Some (t, v) \<longrightarrow>
        v = None \<and> t0 + 200 \<le> t
        \<and> \<not> (\<exists>n\<in>set ((case node of Some n \<Rightarrow> n | None \<Rightarrow> document) t). matches selector n))
     \<and> (\<forall>k. (\<forall>j<k. \<exists>n\<in>set ((case node of Some n \<Rightarrow> n | None \<Rightarrow> document) (t0 + 200 + 200 * j)).
                    matches selector n)
            \<and> \<not> (\<exists>n\<in>set ((case node of Some n \<Rightarrow> n | None \<Rightarrow> document) (t0 + 200 + 200 * k)).
                    matches selector n)
          \<longrightarrow> waitForSelector matches document selector node options t0
                = Some (t0 + 200 + 200 * k, None))
     \<and> ((\<forall>k. \<exists>n\<in>set ((case node of Some n \<Rightarrow> n | None \<Rightarrow> document) (t0 + 200 + 200 * k)).
                matches selector n)
          \<longrightarrow> waitForSelector matches document selector node options t0 = None)"
proof -
  let ?parent = "case node of Some n \<Rightarrow> n | None \<Rightarrow> document"
  let ?check = "\<lambda>t. waitTick True (querySelector matches selector (?parent t))"
  have w: "waitForSelector matches document selector node options t0
             = setInterval_until ?check (t0 + 200)"
    using assms by (simp add: waitForSelector_def waitForHidden_def Let_def)
  have c1: "?check t = None \<longleftrightarrow> (\<exists>n\<in>set (?parent t). matches selector n)" for t
    using querySelector_None [of matches selector "?parent t"] by (auto simp: waitTick_def)
  have c2: "?check t = Some v \<longleftrightarrow> v = None \<and> \<not> (\<exists>n\<in>set (?parent t). matches selector n)" for t v
    using querySelector_None [of matches selector "?parent t"] by (auto simp: waitTick_def)
  have a: "v = None \<and> t0 + 200 \<le> t \<and> \<not> (\<exists>n\<in>set (?parent t). matches selector n)"
    if "waitForSelector matches document selector node options t0 = Some (t, v)" for t v
  proof -
    from that w have "setInterval_until ?check (t0 + 200) = Some (t, v)" by simp
    from poll_some [OF this] obtain k where "t = t0 + 200 + 200 * k" "?check t = Some v"
      by auto
    then show ?thesis using c2 [of t v] by simp
  qed
  have b: "waitForSelector matches document selector node options t0 = Some (t0 + 200 + 200 * k, None)"
    if "\<forall>j<k. \<exists>n\<in>set (?parent (t0 + 200 + 200 * j)). matches selector n"
      and "\<not> (\<exists>n\<in>set (?parent (t0 + 200 + 200 * k)). matches selector n)" for k
  proof -
    have "?check (t0 + 200 + 200 * k) = Some None" using that(2) c2 by blast
    moreover have "?check (t0 + 200 + 200 * j) = None" if "j < k" for j
      using \<open>\<forall>j<k. _\<close> that c1 by blast
    ultimately show ?thesis unfolding w by (rule poll_first)
  qed
  have c: "waitForSelector matches document selector node options t0 = None"
    if "\<forall>k. \<exists>n\<in>set (?parent (t0 + 200 + 200 * k)). matches selector n"
    unfolding w poll_none using that c1 by blast
  show ?thesis
  proof (intro conjI allI impI)
    fix t v assume r: "waitForSelector matches document selector node options t0 = Some (t, v)"
    show "v = None" using a [OF r] by simp
    show "t0 + 200 \<le> t" using a [OF r] by simp
    show "\<not> (\<exists>n\<in>set (?parent t). matches selector n)" using a [OF r] by simp
  next
    fix k
    assume "(\<forall>j<k. \<exists>n\<in>set (?parent (t0 + 200 + 200 * j)). matches selector n)
            \<and> \<not> (\<exists>n\<in>set (?parent (t0 + 200 + 200 * k)). matches selector n)"
    then show "waitForSelector matches document selector node options t0
                = Some (t0 + 200 + 200 * k, None)"
      using b [of k] by simp
  next
    assume "\<forall>k. \<exists>n\<in>set (?parent (t0 + 200 + 200 * k)). matches selector n"
    then show "waitForSelector matches document selector node options t0 = None" by (rule c)
  qed
qed

lemma exampleDocument_ticks:
  "exampleDocument 200 = [3, 1, 2]" "exampleDocument 400 = [3, 1, 2]" "exampleDocument 600 = [3, 2]"
  by (simp_all add: exampleDocument_def)

theorem waitForSelector_hidden_witness:
  "waitForSelector sameElement exampleDocument 1 None hiddenOption 0 = Some (600, None)"
proof -
  have h1: "hiddenOption = Some \<lparr>hidden = Some True\<rparr>" by (simp add: hiddenOption_def)
  have h2: "hidden \<lparr>hidden = Some True\<rparr> = Some True" by simp
  note th = waitForSelector_hidden [OF h1 h2, of sameElement exampleDocument 1 None 0]
  note step = mp [OF spec [OF conjunct1 [OF conjunct2 [OF th]], of 2]]
  have "waitForSelector sameElement exampleDocument 1 None hiddenOption 0
          = Some (0 + 200 + 200 * 2, None)"
  proof (rule step, intro conjI allI impI)
    fix j :: nat assume "j < 2"
    then have "j = 0 \<or> j = 1" by auto
    then show "\<exists>n\<in>set ((case None of Some n \<Rightarrow> n | None \<Rightarrow> exampleDocument) (0 + 200 + 200 * j)).
                 sameElement 1 n"
      by (auto simp: exampleDocument_ticks sameElement_def)
  next
    show "\<not> (\<exists>n\<in>set ((case None of Some n \<Rightarrow> n | None \<Rightarrow> exampleDocument) (0 + 200 + 200 * 2)).
                 sameElement 1 n)"
      by (simp add: exampleDocument_ticks sameElement_def)
  qed
  then show ?thesis by simp
qed

subsection \<open>The executor of the code branch\<close>

lemma checkIfDone_placeholder:
  "showsPlaceholder out \<Longrightarrow>
   checkIfDone now timeout out st =
     (startTimeout now timeout st)\<lparr>numTries := numTries st + 1\<rparr>"
  by (auto simp: showsPlaceholder_def checkIfDone_def startTimeout_def Let_def split: option.splits)

lemma checkIfDone_armed_placeholder:
  "showsPlaceholder out \<Longrightarrow> timeoutTimer st = Some d \<Longrightarrow>
   checkIfDone now timeout out st = st\<lparr>numTries := numTries st + 1\<rparr>"
  by (simp add: checkIfDone_placeholder startTimeout_def)

lemma checkIfDone_settles:
  "\<not> showsPlaceholder out \<Longrightarrow> numTries st > 0 \<Longrightarrow>
   checkIfDone now timeout out st =
     (clearAndResolve now out st)\<lparr>numTries := numTries st + 1\<rparr>"
  by (auto simp: showsPlaceholder_def checkIfDone_def clearAndResolve_def Let_def split: option.splits)

lemma eventLoop_resolved:
  "resolved st = Some r \<Longrightarrow> eventLoop timeout out t st = Some st"
  by (subst eventLoop.simps) simp


lemma eventLoop_tick_armed:
  "resolved st = None \<Longrightarrow> timeoutTimer st = Some d \<Longrightarrow>
   tickBeforeTimeout (timeoutBeforeInterval st) t d \<Longrightarrow>
   eventLoop timeout out t st = eventLoop timeout out (t + 200) (checkIfDone t timeout (out t) st)"
  by (subst eventLoop.simps) simp



lemma tickBeforeTimeout_earlier: "tickBeforeTimeout first t d \<Longrightarrow> s < t \<Longrightarrow> tickBeforeTimeout first s d"
  by (auto simp: tickBeforeTimeout_def)


text \<open>
  An armed loop whose check \<open>k\<close> is the first to see something else, and comes before the
  timeout.
\<close>

lemma armed_settles:
  assumes "resolved st = None" "timeoutTimer st = Some d" "numTries st > 0"
    and "\<And>j. j < k \<Longrightarrow> showsPlaceholder (out (t + 200 * j))"
    and "tickBeforeTimeout (timeoutBeforeInterval st) (t + 200 * k) d"
    and "\<not> showsPlaceholder (out (t + 200 * k))"
  shows "eventLoop timeout out t st =
           Some ((clearAndResolve (t + 200 * k) (out (t + 200 * k)) st)\<lparr>numTries := numTries st + k + 1\<rparr>)"
  using assms
proof (induction k arbitrary: t st)
  case 0
  have tb: "tickBeforeTimeout (timeoutBeforeInterval st) t d" using 0 by simp
  show ?case
    using eventLoop_tick_armed [OF 0(1,2) tb] 0
    by (simp add: checkIfDone_settles eventLoop_resolved clearAndResolve_def)
next
  case (Suc k)
  have tb: "tickBeforeTimeout (timeoutBeforeInterval st) t d"
    using Suc.prems(5) by (rule tickBeforeTimeout_earlier) simp
  have ph: "showsPlaceholder (out t)" using Suc.prems(4) [of 0] by simp
  let ?st = "st\<lparr>numTries := numTries st + 1\<rparr>"
  have step: "eventLoop timeout out t st = eventLoop timeout out (t + 200) ?st"
    using eventLoop_tick_armed [OF Suc.prems(1,2) tb]
    by (simp add: checkIfDone_armed_placeholder [OF ph Suc.prems(2)])
  have "eventLoop timeout out (t + 200) ?st =
      Some ((clearAndResolve (t + 200 + 200 * k) (out (t + 200 + 200 * k)) ?st)
             \<lparr>numTries := numTries ?st + k + 1\<rparr>)"
  proof (rule Suc.IH)
    show "resolved ?st = None" using Suc.prems(1) by simp
    show "timeoutTimer ?st = Some d" using Suc.prems(2) by simp
    show "0 < numTries ?st" by simp
    show "showsPlaceholder (out (t + 200 + 200 * j))" if "j < k" for j
      using Suc.prems(4) [of "Suc j"] that by (simp add: add.assoc)
    show "tickBeforeTimeout (timeoutBeforeInterval ?st) (t + 200 + 200 * k) d"
      using Suc.prems(5) by (simp add: add.assoc)
    show "\<not> showsPlaceholder (out (t + 200 + 200 * k))" using Suc.prems(6) by (simp add: add.assoc)
  qed
  then show ?case using step by (simp add: add.assoc clearAndResolve_def)
qed



lemma run_placeholder:
  "showsPlaceholder (out t0) \<Longrightarrow>
   codeCellRun timeout out t0 = eventLoop timeout out (t0 + 200) (armedState 1 t0 timeout True)"
  by (simp add: codeCellRun_def checkIfDone_placeholder startTimeout_def armedState_def)








lemma armingCheck_unique: "armingCheck out t0 a \<Longrightarrow> armingCheck out t0 b \<Longrightarrow> a = b"
  by (auto simp: armingCheck_def showsPlaceholder_def)





lemma waitForCellRun_code:
  assumes "model_type cell = Code" and "trim (model_text cell) \<noteq> []"
    and "waitForXPath (promptXPath cell emptyPrompt) (Some \<lparr>hidden = Some True\<rparr>) t0 = Some (t1, v1)"
    and "waitForXPath (promptXPath cell runningPrompt) (Some \<lparr>hidden = Some True\<rparr>) t1 = Some (t2, v2)"
    and "codeCellRun timeout (outputAt cell) t2 = Some st"
  shows "waitForCellRun cell timeout t0 = resolved st"
  using assms by (simp add: waitForCellRun_def)

subsection \<open>Waiting for a cell\<close>

text \<open>
  C6. For a cell whose source text is empty or consists of white space only,
  \<open>waitForCellRun\<close> resolves with nothing at the time of the call, whatever the type of the
  cell, its DOM and its readiness promise are: nothing of them is read. (Any wait on a
  prompt marker or on the DOM resolves at a later time than the one it starts at.)
\<close>

theorem waitForCellRun_blank:
  "(\<forall>c\<in>set (model_text cell). isWhiteSpace c) \<longrightarrow>
     waitForCellRun cell timeout t0 = Some (t0, None)
     \<and> waitForCellRun (cell\<lparr>model_type := ty, snapshot := snap, ready := r\<rparr>) timeout t0
         = Some (t0, None)
     \<and> (\<forall>evaluate options t v. waitForXPath evaluate options t0 = Some (t, v) \<longrightarrow> t0 < t)"
  using waitForXPath_after by (fastforce simp: waitForCellRun_def trim_blank)

theorem waitForCellRun_blank_witness:
  "waitForCellRun blankCell 2000 0 = Some (0, None)"
  using waitForCellRun_blank [where cell = blankCell and timeout = 2000 and ?t0.0 = 0
      and ty = Code and snap = "snapshot blankCell" and r = None]
  by (auto simp: blankCell_def js_def isWhiteSpace_def)

lemma examplePrompts_wait:
  assumes "\<And>t. prompts (snapshot cell t) = examplePrompts t"
  shows "waitForXPath (promptXPath cell emptyPrompt) (Some \<lparr>hidden = Some True\<rparr>) 0 = Some (200, None)"
    and "waitForXPath (promptXPath cell runningPrompt) (Some \<lparr>hidden = Some True\<rparr>) 200 = Some (400, None)"
proof -
  have ne: "runningPrompt \<noteq> emptyPrompt" "js ''[1]:'' \<noteq> runningPrompt"
    by (simp_all add: runningPrompt_def emptyPrompt_def js_def)
  show "waitForXPath (promptXPath cell emptyPrompt) (Some \<lparr>hidden = Some True\<rparr>) 0 = Some (200, None)"
    unfolding waitForXPath_def
    by (subst setInterval_until.simps)
       (simp add: waitTick_def waitForHidden_def promptXPath_def assms examplePrompts_def ne)
  show "waitForXPath (promptXPath cell runningPrompt) (Some \<lparr>hidden = Some True\<rparr>) 200 = Some (400, None)"
    unfolding waitForXPath_def
    by (subst setInterval_until.simps)
       (simp add: waitTick_def waitForHidden_def promptXPath_def assms examplePrompts_def ne)
qed

lemma nonblank_examples: "trim (js ''w'') \<noteq> []" "trim (js ''x = 1'') \<noteq> []"
  by (simp_all add: trim_def js_def isWhiteSpace_def)




lemma lateOutputCell_output:
  "400 \<le> t \<Longrightarrow> t < 1000 \<Longrightarrow> outputAt lateOutputCell t = Some placeholderNode"
  "1000 \<le> t \<Longrightarrow> outputAt lateOutputCell t = Some resultNode"
  by (simp_all add: outputAt_def lateOutputCell_def)


lemma placeholderNode_shows: "showsPlaceholder (Some placeholderNode)"
  by (simp add: showsPlaceholder_def placeholderNode_def)

lemma resultNode_text: "textContent resultNode \<noteq> loadingWidget"
  by (simp add: resultNode_def loadingWidget_def js_def)








subsection \<open>Running the notebook cell by cell\<close>


















lemma lateOutputCell_wait: "waitForCellRun_default lateOutputCell 0 = Some (1000, Some resultNode)"
proof -
  let ?out = "outputAt lateOutputCell"
  let ?s = "armedState 1 400 2000 True"
  have "codeCellRun 2000 ?out 400 = eventLoop 2000 ?out (400 + 200) ?s"
    by (rule run_placeholder) (simp add: lateOutputCell_output placeholderNode_shows)
  also have "\<dots> = Some ((clearAndResolve (400 + 200 + 200 * 2) (?out (400 + 200 + 200 * 2)) ?s)
                         \<lparr>numTries := numTries ?s + 2 + 1\<rparr>)"
  proof (rule armed_settles [where d = 2400])
    show "showsPlaceholder (?out (400 + 200 + 200 * j))" if "j < 2" for j
    proof -
      from that have "j = 0 \<or> j = 1" by auto
      then show ?thesis by (auto simp: lateOutputCell_output placeholderNode_shows)
    qed
    show "\<not> showsPlaceholder (?out (400 + 200 + 200 * 2))"
      using resultNode_text by (simp add: lateOutputCell_output showsPlaceholder_def)
  qed (simp_all add: armedState_def setTimeoutDelay_def tickBeforeTimeout_def)
  finally have cr: "codeCellRun 2000 ?out 400 =
      Some ((clearAndResolve 1000 (Some resultNode) ?s)\<lparr>numTries := numTries ?s + 2 + 1\<rparr>)"
    by (simp add: lateOutputCell_output)
  have c: "model_type lateOutputCell = Code" and n: "trim (model_text lateOutputCell) \<noteq> []"
    by (simp_all add: lateOutputCell_def nonblank_examples)
  have p: "prompts (snapshot lateOutputCell t) = examplePrompts t" for t
    by (simp add: lateOutputCell_def)
  show ?thesis
    unfolding waitForCellRun_default_def
    using waitForCellRun_code [OF c n examplePrompts_wait(1) [OF p] examplePrompts_wait(2) [OF p] cr]
    by (simp add: clearAndResolve_def armedState_def)
qed







lemma binaryExponent_numeral:
  "binaryExponent (numeral k) x =
     (if \<bar>x\<bar> \<ge> 2 then binaryExponent (pred_numeral k) (x / 2) + 1
      else if \<bar>x\<bar> < 1 then binaryExponent (pred_numeral k) (x * 2) - 1
      else 0)"
  by (simp add: numeral_eq_Suc)

lemma binary64_examples:
  "binary64 600 = 600" "binary64 200 = 200" "binary64 400 = 400" "binary64 18000 = 18000"
  "binary64 180 = 180" "binary64 210 = 210" "binary64 10 = 10"
  by (simp_all add: binary64_def pow2_def roundTiesToEven_def Let_def binaryExponent_numeral)

lemma exampleViewport_scroll:
  "notebookWillScroll exampleViewport 700 45" "\<not> notebookWillScroll exampleViewport 310 45"
  by (simp_all add: notebookWillScroll_def exampleViewport_def binary64_examples Let_def)

text \<open>
  C1, on two notebooks of one cell for which a scroll is predicted and \<^verbatim>\<open>onAfterScroll\<close> is
  supplied. Where the scroll position has changed (from 0 to 400) the run logs
  \<^verbatim>\<open>Notebook scroll mispredicted!\<close>; where it has not changed the run logs nothing. Both
  runs go on to \<^verbatim>\<open>onAfterScroll\<close> and return.
\<close>

theorem runCellByCell_logs_when_scrolled:
  "runActiveNotebookCellByCell (Some allCallbacks) (Some [movedCell]) =
     ([DeselectAll, SetActiveCellIndex 0, Select 0,
       Invoke (NotebookActionsRun 0), Settled (NotebookActionsRun 0),
       Invoke (WaitForCellRun 0), Settled (WaitForCellRun 0),
       Invoke (OnAfterCellRun 0), Settled (OnAfterCellRun 0),
       Invoke OnBeforeScroll, Settled OnBeforeScroll,
       ScrollToPosition 700 45, NotebookUpdate,
       ConsoleError scrollMispredicted,
       Invoke OnAfterScroll, Settled OnAfterScroll], Done ())
   \<and> runActiveNotebookCellByCell (Some allCallbacks) (Some [pinnedCell]) =
     ([DeselectAll, SetActiveCellIndex 0, Select 0,
       Invoke (NotebookActionsRun 0), Settled (NotebookActionsRun 0),
       Invoke (WaitForCellRun 0), Settled (WaitForCellRun 0),
       Invoke (OnAfterCellRun 0), Settled (OnAfterCellRun 0),
       Invoke OnBeforeScroll, Settled OnBeforeScroll,
       ScrollToPosition 700 45, NotebookUpdate,
       Invoke OnAfterScroll, Settled OnAfterScroll], Done ())
   \<and> newScroll movedCell \<noteq> prevScroll movedCell
   \<and> newScroll pinnedCell = prevScroll pinnedCell"
  using exampleViewport_scroll(1)
  by (simp add: runActiveNotebookCellByCell_def cellBody_def scrollToCell_def bind_proc_def
      emit_def ret_def await_def awaitWaitForCellRun_def lateOutputCell_wait allCallbacks_def
      movedCell_def pinnedCell_def scrollThreshold_def Let_def)




end
